theory Spec2Isabelle
  imports Main "HOL-Library.AList"
begin

section \<open>Credentials read from environment variables\<close>

text \<open>
  A shallow embedding of \<^verbatim>\<open>qiskit/providers/ibmq/credentials/environ.py\<close>.
  The process environment is a partial map from variable names to values. The
  source reaches it through \<^verbatim>\<open>os.getenv\<close> only; the environment is threaded
  through every call as explicit state, so that what the loader leaves behind can
  be stated.
\<close>

subsection \<open>The process environment\<close>

type_synonym environ = "string \<rightharpoonup> string"

text \<open>\<^verbatim>\<open>os.getenv(name)\<close>: the value of the variable, or \<^verbatim>\<open>None\<close>; a read.\<close>

definition os_getenv :: "string \<Rightarrow> environ \<Rightarrow> string option \<times> environ" where
  "os_getenv name env = (env name, env)"

text \<open>
  Python's truth value of a \<^verbatim>\<open>str\<close> or \<^verbatim>\<open>None\<close>: \<^verbatim>\<open>None\<close> and the empty
  string are false, every other string is true.
\<close>

definition truthy :: "string option \<Rightarrow> bool" where
  "truthy v = (case v of None \<Rightarrow> False | Some s \<Rightarrow> s \<noteq> [])"

subsection \<open>The credential record\<close>

datatype error = TypeError

text \<open>
  Keyword arguments of a call, \<^verbatim>\<open>**credentials\<close>: a Python \<^verbatim>\<open>dict\<close> in insertion
  order, from parameter name to a value that is a \<^verbatim>\<open>str\<close> or \<^verbatim>\<open>None\<close>.
\<close>

type_synonym kwargs = "(string \<times> string option) list"

record Credentials =
  token :: "string option"
  url :: "string option"
  websocket_url :: "string option"
  hub :: "string option"
  group :: "string option"
  project :: "string option"

definition parameter_names :: "string list" where
  "parameter_names =
     [''token'', ''url'', ''websocket_url'', ''hub'', ''group'', ''project'']"

definition default_None :: "kwargs \<Rightarrow> string \<Rightarrow> string option" where
  "default_None kw name = (case map_of kw name of None \<Rightarrow> None | Some v \<Rightarrow> v)"

text \<open>
  Modelled from the spec: the class \<^verbatim>\<open>Credentials\<close> of \<^verbatim>\<open>credentials.py\<close>,
  which \<^verbatim>\<open>environ.py\<close> imports, is not among the sources. The spec's record
  holds a token (required), a base URL (required) and the optional fields
  websocket URL, hub, group and project. The constructor stores the keyword
  arguments it is given, leaves an optional field that is not given at
  \<^verbatim>\<open>None\<close>, and, as every Python call does, raises \<^verbatim>\<open>TypeError\<close> for a missing
  required argument or an unknown keyword.
\<close>

definition Credentials_init :: "kwargs \<Rightarrow> error + Credentials" where
  "Credentials_init kw =
     (if list_ex (\<lambda>name. name \<notin> set parameter_names) (map fst kw) then Inl TypeError
      else case map_of kw ''token'' of
        None \<Rightarrow> Inl TypeError
      | Some t \<Rightarrow>
         (case map_of kw ''url'' of
            None \<Rightarrow> Inl TypeError
          | Some u \<Rightarrow>
              Inr \<lparr>token = t, url = u,
                   websocket_url = default_None kw ''websocket_url'',
                   hub = default_None kw ''hub'',
                   group = default_None kw ''group'',
                   project = default_None kw ''project''\<rparr>))"

type_synonym hub_group_project = "string option \<times> string option \<times> string option"

text \<open>
  Modelled from the spec: \<^verbatim>\<open>Credentials.unique_id\<close> is not among the sources.
  The spec derives the uniqueness key deterministically from the hub/group/project
  triple, with a default where a component is absent; the default is \<^verbatim>\<open>None\<close>.
\<close>

definition unique_id :: "Credentials \<Rightarrow> hub_group_project" where
  "unique_id c = (hub c, group c, project c)"

subsection \<open>The loader\<close>

text \<open>
  \<^verbatim>\<open>VARIABLES_MAP\<close>: a \<^verbatim>\<open>dict\<close> literal, iterated by \<^verbatim>\<open>items()\<close> in the order
  it is written.
\<close>

definition VARIABLES_MAP :: "(string \<times> string) list" where
  "VARIABLES_MAP =
     [(''QE_TOKEN'', ''token''),
      (''QE_URL'', ''url''),
      (''QE_WEBSOCKET_URL'', ''websocket_url''),
      (''QE_HUB'', ''hub''),
      (''QE_GROUP'', ''group''),
      (''QE_PROJECT'', ''project'')]"

text \<open>
  The loop of lines 47 to 49 over the remaining items: each variable is read, and
  when its value is true it is read again and stored under the credential key.
\<close>

fun build_credentials ::
  "(string \<times> string) list \<Rightarrow> kwargs \<Rightarrow> environ \<Rightarrow> kwargs \<times> environ" where
  "build_credentials [] credentials env = (credentials, env)"
| "build_credentials ((envar_name, credential_key) # items) credentials env =
     (case os_getenv envar_name env of
        (v, env1) \<Rightarrow>
          if truthy v then
            (case os_getenv envar_name env1 of
               (v', env2) \<Rightarrow>
                 build_credentials items (AList.update credential_key v' credentials) env2)
          else build_credentials items credentials env1)"

text \<open>
  \<^verbatim>\<open>read_credentials_from_environ\<close>. The result is the \<^verbatim>\<open>OrderedDict\<close> as an
  association list from unique identifier to record, or the error raised, paired
  with the environment after the call. Python's \<^verbatim>\<open>and\<close> does not read
  \<^verbatim>\<open>QE_URL\<close> when \<^verbatim>\<open>QE_TOKEN\<close> is false.
\<close>

definition read_credentials_from_environ ::
  "environ \<Rightarrow> (error + (hub_group_project \<times> Credentials) list) \<times> environ" where
  "read_credentials_from_environ env =
     (case os_getenv ''QE_TOKEN'' env of
        (tok, env1) \<Rightarrow>
          if \<not> truthy tok then (Inr [], env1)
          else
            (case os_getenv ''QE_URL'' env1 of
               (u, env2) \<Rightarrow>
                 if \<not> truthy u then (Inr [], env2)
                 else
                   (case build_credentials VARIABLES_MAP [] env2 of
                      (credentials, env3) \<Rightarrow>
                        (case Credentials_init credentials of
                           Inl e \<Rightarrow> (Inl e, env3)
                         | Inr c \<Rightarrow> (Inr [(unique_id c, c)], env3)))))"


subsection \<open>Example environments\<close>

definition environ_abc :: environ where
  "environ_abc = [''QE_TOKEN'' \<mapsto> ''abc'', ''QE_URL'' \<mapsto> ''http://x'']"

definition environ_hub :: environ where
  "environ_hub = [''QE_TOKEN'' \<mapsto> ''abc'', ''QE_URL'' \<mapsto> ''http://x'', ''QE_HUB'' \<mapsto> ''h'']"

section \<open>Properties of the loader\<close>

subsection \<open>Truth values\<close>

lemma truthy_Some: "truthy (Some s) \<longleftrightarrow> s \<noteq> []"
  by (simp add: truthy_def)

lemma truthy_None: "\<not> truthy None"
  by (simp add: truthy_def)

lemma truthy_iff: "truthy v \<longleftrightarrow> (\<exists>s. v = Some s \<and> s \<noteq> [])"
  by (cases v) (simp_all add: truthy_def)

lemma precondition_iff:
  "(\<exists>t u. env ''QE_TOKEN'' = Some t \<and> t \<noteq> [] \<and> env ''QE_URL'' = Some u \<and> u \<noteq> []) \<longleftrightarrow>
   truthy (env ''QE_TOKEN'') \<and> truthy (env ''QE_URL'')"
  by (auto simp: truthy_iff)

subsection \<open>The loop\<close>

text \<open>One iteration, with both reads of the variable resolved.\<close>

lemma build_credentials_Cons:
  "build_credentials ((var, key) # items) kw env =
     (if truthy (env var) then build_credentials items (AList.update key (env var) kw) env
      else build_credentials items kw env)"
  by (simp add: os_getenv_def)

lemma build_credentials_environ:
  "snd (build_credentials items kw env) = env"
proof (induction items arbitrary: kw)
  case Nil
  show ?case by simp
next
  case (Cons item items)
  obtain var key where item: "item = (var, key)" by (cases item)
  show ?case
    unfolding item build_credentials_Cons using Cons.IH by simp
qed

text \<open>The dictionary the loop builds, as a map: every true variable stored in turn.\<close>

lemma build_credentials_map_of:
  "map_of (fst (build_credentials items kw env)) =
     foldl (\<lambda>m (var, key). if truthy (env var) then m(key \<mapsto> env var) else m)
       (map_of kw) items"
proof (induction items arbitrary: kw)
  case Nil
  show ?case by simp
next
  case (Cons item items)
  obtain var key where item: "item = (var, key)" by (cases item)
  show ?case
  proof (cases "truthy (env var)")
    case True
    then show ?thesis
      unfolding item build_credentials_Cons
      by (simp only: Cons.IH AList.update_conv' if_True foldl_Cons case_prod_conv)
  next
    case False
    then show ?thesis
      unfolding item build_credentials_Cons
      by (simp only: Cons.IH if_False foldl_Cons case_prod_conv)
  qed
qed

text \<open>The loop adds no key other than the credential keys of the items.\<close>

lemma build_credentials_keys:
  "fst ` set (fst (build_credentials items kw env)) \<subseteq> fst ` set kw \<union> snd ` set items"
proof (induction items arbitrary: kw)
  case Nil
  show ?case by simp
next
  case (Cons item items)
  obtain var key where item: "item = (var, key)" by (cases item)
  show ?case
  proof (cases "truthy (env var)")
    case True
    have "fst ` set (fst (build_credentials items (AList.update key (env var) kw) env))
            \<subseteq> fst ` set (AList.update key (env var) kw) \<union> snd ` set items"
      by (rule Cons.IH)
    with True show ?thesis
      unfolding item build_credentials_Cons by (auto simp: AList.dom_update)
  next
    case False
    have "fst ` set (fst (build_credentials items kw env)) \<subseteq> fst ` set kw \<union> snd ` set items"
      by (rule Cons.IH)
    with False show ?thesis
      unfolding item build_credentials_Cons by auto
  qed
qed

lemma VARIABLES_MAP_keys: "snd ` set VARIABLES_MAP = set parameter_names"
  by (simp add: VARIABLES_MAP_def parameter_names_def)

lemma VARIABLES_MAP_kwargs:
  fixes env :: environ
  defines "kw \<equiv> fst (build_credentials VARIABLES_MAP [] env)"
  shows "map_of kw ''token'' = (if truthy (env ''QE_TOKEN'') then Some (env ''QE_TOKEN'') else None)"
    and "map_of kw ''url'' = (if truthy (env ''QE_URL'') then Some (env ''QE_URL'') else None)"
    and "map_of kw ''websocket_url'' =
           (if truthy (env ''QE_WEBSOCKET_URL'') then Some (env ''QE_WEBSOCKET_URL'') else None)"
    and "map_of kw ''hub'' = (if truthy (env ''QE_HUB'') then Some (env ''QE_HUB'') else None)"
    and "map_of kw ''group'' = (if truthy (env ''QE_GROUP'') then Some (env ''QE_GROUP'') else None)"
    and "map_of kw ''project'' =
           (if truthy (env ''QE_PROJECT'') then Some (env ''QE_PROJECT'') else None)"
  unfolding kw_def build_credentials_map_of
  by (simp_all add: VARIABLES_MAP_def)

subsection \<open>The two outcomes\<close>

lemma read_credentials_empty:
  assumes "\<not> (truthy (env ''QE_TOKEN'') \<and> truthy (env ''QE_URL''))"
  shows "read_credentials_from_environ env = (Inr [], env)"
  using assms by (auto simp: read_credentials_from_environ_def os_getenv_def)

lemma read_credentials_found:
  assumes tok: "truthy (env ''QE_TOKEN'')" and u: "truthy (env ''QE_URL'')"
  defines "c \<equiv> \<lparr>token = env ''QE_TOKEN'', url = env ''QE_URL'',
     websocket_url = (if truthy (env ''QE_WEBSOCKET_URL'') then env ''QE_WEBSOCKET_URL'' else None),
     hub = (if truthy (env ''QE_HUB'') then env ''QE_HUB'' else None),
     group = (if truthy (env ''QE_GROUP'') then env ''QE_GROUP'' else None),
     project = (if truthy (env ''QE_PROJECT'') then env ''QE_PROJECT'' else None)\<rparr>"
  shows "read_credentials_from_environ env = (Inr [(unique_id c, c)], env)"
proof -
  define kw where "kw = fst (build_credentials VARIABLES_MAP [] env)"
  have built: "build_credentials VARIABLES_MAP [] env = (kw, env)"
    unfolding kw_def using build_credentials_environ [of VARIABLES_MAP "[]" env]
    by (simp add: prod_eq_iff)
  have "fst ` set kw \<subseteq> set parameter_names"
    unfolding kw_def using build_credentials_keys [of VARIABLES_MAP "[]" env]
    by (simp add: VARIABLES_MAP_keys)
  then have known: "\<not> list_ex (\<lambda>name. name \<notin> set parameter_names) (map fst kw)"
    by (auto simp: list_ex_iff)
  have "Credentials_init kw = Inr c"
    unfolding Credentials_init_def default_None_def c_def
    using known tok u VARIABLES_MAP_kwargs [of env, folded kw_def]
    by simp
  with tok u built show ?thesis
    by (simp add: read_credentials_from_environ_def os_getenv_def)
qed

lemma read_credentials_one:
  assumes "truthy (env ''QE_TOKEN'')" and "truthy (env ''QE_URL'')"
  shows "\<exists>c. read_credentials_from_environ env = (Inr [(unique_id c, c)], env)"
  using read_credentials_found [OF assms] by blast

lemma read_credentials_fields:
  assumes "truthy (env ''QE_TOKEN'')" and "truthy (env ''QE_URL'')"
  shows "\<exists>c. fst (read_credentials_from_environ env) = Inr [(unique_id c, c)] \<and>
           token c = env ''QE_TOKEN'' \<and> url c = env ''QE_URL'' \<and>
           websocket_url c =
             (if truthy (env ''QE_WEBSOCKET_URL'') then env ''QE_WEBSOCKET_URL'' else None) \<and>
           hub c = (if truthy (env ''QE_HUB'') then env ''QE_HUB'' else None) \<and>
           group c = (if truthy (env ''QE_GROUP'') then env ''QE_GROUP'' else None) \<and>
           project c = (if truthy (env ''QE_PROJECT'') then env ''QE_PROJECT'' else None)"
proof -
  define c where "c = \<lparr>token = env ''QE_TOKEN'', url = env ''QE_URL'',
     websocket_url = (if truthy (env ''QE_WEBSOCKET_URL'') then env ''QE_WEBSOCKET_URL'' else None),
     hub = (if truthy (env ''QE_HUB'') then env ''QE_HUB'' else None),
     group = (if truthy (env ''QE_GROUP'') then env ''QE_GROUP'' else None),
     project = (if truthy (env ''QE_PROJECT'') then env ''QE_PROJECT'' else None)\<rparr>"
  have "read_credentials_from_environ env = (Inr [(unique_id c, c)], env)"
    using read_credentials_found [OF assms] unfolding c_def .
  then have result: "fst (read_credentials_from_environ env) = Inr [(unique_id c, c)]"
    by simp
  have fields: "token c = env ''QE_TOKEN''" "url c = env ''QE_URL''"
    "websocket_url c =
       (if truthy (env ''QE_WEBSOCKET_URL'') then env ''QE_WEBSOCKET_URL'' else None)"
    "hub c = (if truthy (env ''QE_HUB'') then env ''QE_HUB'' else None)"
    "group c = (if truthy (env ''QE_GROUP'') then env ''QE_GROUP'' else None)"
    "project c = (if truthy (env ''QE_PROJECT'') then env ''QE_PROJECT'' else None)"
    by (simp_all add: c_def)
  show ?thesis
    by (intro exI [of _ c] conjI result fields)
qed

text \<open>Every call of the loader is a read: the environment it returns is the one it was given.\<close>

lemma read_credentials_environ:
  "snd (read_credentials_from_environ env) = env"
proof (cases "truthy (env ''QE_TOKEN'') \<and> truthy (env ''QE_URL'')")
  case True
  then obtain c where "read_credentials_from_environ env = (Inr [(unique_id c, c)], env)"
    using read_credentials_one by blast
  then show ?thesis
    by simp
next
  case False
  then show ?thesis
    by (simp add: read_credentials_empty)
qed

section \<open>The claims\<close>

text \<open>
  C1. For every environment in which \<^verbatim>\<open>QE_TOKEN\<close> is missing or empty, or
  \<^verbatim>\<open>QE_URL\<close> is missing or empty, or both, the loader returns an empty mapping.
\<close>

theorem missing_required_gives_empty:
  assumes "env ''QE_TOKEN'' = None \<or> env ''QE_TOKEN'' = Some [] \<or>
           env ''QE_URL'' = None \<or> env ''QE_URL'' = Some []"
  shows "fst (read_credentials_from_environ env) = Inr []"
proof -
  from assms have "\<not> (truthy (env ''QE_TOKEN'') \<and> truthy (env ''QE_URL''))"
    by (auto simp: truthy_def)
  then show ?thesis
    by (simp add: read_credentials_empty)
qed

theorem missing_required_gives_empty_witness:
  "([''QE_URL'' \<mapsto> ''http://x''] ''QE_TOKEN'' = None \<or>
    [''QE_URL'' \<mapsto> ''http://x''] ''QE_TOKEN'' = Some [] \<or>
    [''QE_URL'' \<mapsto> ''http://x''] ''QE_URL'' = None \<or>
    [''QE_URL'' \<mapsto> ''http://x''] ''QE_URL'' = Some []) \<and>
   fst (read_credentials_from_environ [''QE_URL'' \<mapsto> ''http://x'']) = Inr []"
  using missing_required_gives_empty [of "[''QE_URL'' \<mapsto> ''http://x'']"]
  by simp

text \<open>
  C2. With \<^verbatim>\<open>QE_TOKEN="abc"\<close> and \<^verbatim>\<open>QE_URL="http://x"\<close> set and none of the four
  optional variables set, the loader returns a mapping with exactly one entry, whose
  record has token \<^verbatim>\<open>"abc"\<close>, url \<^verbatim>\<open>"http://x"\<close> and no websocket URL, hub, group
  or project.
\<close>

theorem token_and_url_only:
  assumes "env ''QE_TOKEN'' = Some ''abc''" and "env ''QE_URL'' = Some ''http://x''"
    and "env ''QE_WEBSOCKET_URL'' = None" and "env ''QE_HUB'' = None"
    and "env ''QE_GROUP'' = None" and "env ''QE_PROJECT'' = None"
  shows "\<exists>k. fst (read_credentials_from_environ env) =
           Inr [(k, \<lparr>token = Some ''abc'', url = Some ''http://x'', websocket_url = None,
                     hub = None, group = None, project = None\<rparr>)]"
proof -
  have "truthy (env ''QE_TOKEN'')" and "truthy (env ''QE_URL'')"
    using assms by (simp_all add: truthy_Some)
  from read_credentials_found [OF this] assms show ?thesis
    by (simp add: truthy_None unique_id_def)
qed

theorem token_and_url_only_witness:
  "environ_abc ''QE_TOKEN'' = Some ''abc'' \<and> environ_abc ''QE_URL'' = Some ''http://x'' \<and>
   environ_abc ''QE_WEBSOCKET_URL'' = None \<and> environ_abc ''QE_HUB'' = None \<and>
   environ_abc ''QE_GROUP'' = None \<and> environ_abc ''QE_PROJECT'' = None \<and>
   (\<exists>k. fst (read_credentials_from_environ environ_abc) =
      Inr [(k, \<lparr>token = Some ''abc'', url = Some ''http://x'', websocket_url = None,
                hub = None, group = None, project = None\<rparr>)])"
  using token_and_url_only [of environ_abc]
  by (simp add: environ_abc_def)

text \<open>
  C3. When \<^verbatim>\<open>QE_TOKEN\<close> and \<^verbatim>\<open>QE_URL\<close> are both non-empty the returned mapping
  has exactly one entry, and for no environment does it have two or more.
\<close>

theorem at_most_one_entry:
  "((\<exists>t u. env ''QE_TOKEN'' = Some t \<and> t \<noteq> [] \<and> env ''QE_URL'' = Some u \<and> u \<noteq> []) \<longrightarrow>
      (\<exists>k c. fst (read_credentials_from_environ env) = Inr [(k, c)])) \<and>
   (\<exists>m. fst (read_credentials_from_environ env) = Inr m \<and> length m \<le> 1)"
proof (cases "truthy (env ''QE_TOKEN'') \<and> truthy (env ''QE_URL'')")
  case True
  then obtain c where "read_credentials_from_environ env = (Inr [(unique_id c, c)], env)"
    using read_credentials_one by blast
  then have one: "fst (read_credentials_from_environ env) = Inr [(unique_id c, c)]"
    by simp
  then have "\<exists>k c. fst (read_credentials_from_environ env) = Inr [(k, c)]"
    by blast
  moreover from one
  have "\<exists>m. fst (read_credentials_from_environ env) = Inr m \<and> length m \<le> 1"
    by simp
  ultimately show ?thesis
    by blast
next
  case False
  then have "fst (read_credentials_from_environ env) = Inr []"
    by (simp add: read_credentials_empty)
  with False show ?thesis
    unfolding precondition_iff by simp
qed

theorem at_most_one_entry_witness:
  "(\<exists>t u. environ_abc ''QE_TOKEN'' = Some t \<and> t \<noteq> [] \<and>
           environ_abc ''QE_URL'' = Some u \<and> u \<noteq> []) \<and>
   (\<exists>k c. fst (read_credentials_from_environ environ_abc) = Inr [(k, c)]) \<and>
   (\<exists>m. fst (read_credentials_from_environ environ_abc) = Inr m \<and> length m \<le> 1)"
proof -
  have pre: "\<exists>t u. environ_abc ''QE_TOKEN'' = Some t \<and> t \<noteq> [] \<and>
                  environ_abc ''QE_URL'' = Some u \<and> u \<noteq> []"
    by (simp add: environ_abc_def)
  with at_most_one_entry [of environ_abc] show ?thesis
    by blast
qed

text \<open>
  C4. When \<^verbatim>\<open>QE_TOKEN\<close> and \<^verbatim>\<open>QE_URL\<close> are both non-empty, each of the six
  recognized variables that is present and non-empty gives its field of the record
  that value, and each optional variable that is absent leaves its field unset.
\<close>

theorem variables_map_to_fields:
  assumes "env ''QE_TOKEN'' = Some t" and "t \<noteq> []" and "env ''QE_URL'' = Some u" and "u \<noteq> []"
  shows "\<exists>k c. fst (read_credentials_from_environ env) = Inr [(k, c)] \<and>
           token c = Some t \<and> url c = Some u \<and>
           (\<forall>v. env ''QE_WEBSOCKET_URL'' = Some v \<and> v \<noteq> [] \<longrightarrow> websocket_url c = Some v) \<and>
           (\<forall>v. env ''QE_HUB'' = Some v \<and> v \<noteq> [] \<longrightarrow> hub c = Some v) \<and>
           (\<forall>v. env ''QE_GROUP'' = Some v \<and> v \<noteq> [] \<longrightarrow> group c = Some v) \<and>
           (\<forall>v. env ''QE_PROJECT'' = Some v \<and> v \<noteq> [] \<longrightarrow> project c = Some v) \<and>
           (env ''QE_WEBSOCKET_URL'' = None \<longrightarrow> websocket_url c = None) \<and>
           (env ''QE_HUB'' = None \<longrightarrow> hub c = None) \<and>
           (env ''QE_GROUP'' = None \<longrightarrow> group c = None) \<and>
           (env ''QE_PROJECT'' = None \<longrightarrow> project c = None)"
proof -
  define c where "c = \<lparr>token = env ''QE_TOKEN'', url = env ''QE_URL'',
     websocket_url = (if truthy (env ''QE_WEBSOCKET_URL'') then env ''QE_WEBSOCKET_URL'' else None),
     hub = (if truthy (env ''QE_HUB'') then env ''QE_HUB'' else None),
     group = (if truthy (env ''QE_GROUP'') then env ''QE_GROUP'' else None),
     project = (if truthy (env ''QE_PROJECT'') then env ''QE_PROJECT'' else None)\<rparr>"
  have "truthy (env ''QE_TOKEN'')" and "truthy (env ''QE_URL'')"
    using assms by (simp_all add: truthy_Some)
  from read_credentials_found [OF this]
  have "read_credentials_from_environ env = (Inr [(unique_id c, c)], env)"
    unfolding c_def .
  then have result: "fst (read_credentials_from_environ env) = Inr [(unique_id c, c)]"
    by simp
  have required: "token c = Some t" "url c = Some u"
    using assms by (simp_all add: c_def)
  have present:
    "\<forall>v. env ''QE_WEBSOCKET_URL'' = Some v \<and> v \<noteq> [] \<longrightarrow> websocket_url c = Some v"
    "\<forall>v. env ''QE_HUB'' = Some v \<and> v \<noteq> [] \<longrightarrow> hub c = Some v"
    "\<forall>v. env ''QE_GROUP'' = Some v \<and> v \<noteq> [] \<longrightarrow> group c = Some v"
    "\<forall>v. env ''QE_PROJECT'' = Some v \<and> v \<noteq> [] \<longrightarrow> project c = Some v"
    by (simp_all add: c_def truthy_Some)
  have absent:
    "env ''QE_WEBSOCKET_URL'' = None \<longrightarrow> websocket_url c = None"
    "env ''QE_HUB'' = None \<longrightarrow> hub c = None"
    "env ''QE_GROUP'' = None \<longrightarrow> group c = None"
    "env ''QE_PROJECT'' = None \<longrightarrow> project c = None"
    by (simp_all add: c_def)
  show ?thesis
    by (intro exI [of _ "unique_id c"] exI [of _ c] conjI result required present absent)
qed

theorem variables_map_to_fields_witness:
  "environ_hub ''QE_TOKEN'' = Some ''abc'' \<and> ''abc'' \<noteq> [] \<and>
   environ_hub ''QE_URL'' = Some ''http://x'' \<and> ''http://x'' \<noteq> [] \<and>
   environ_hub ''QE_HUB'' = Some ''h'' \<and> environ_hub ''QE_GROUP'' = None \<and>
   (\<exists>k c. fst (read_credentials_from_environ environ_hub) = Inr [(k, c)] \<and>
      token c = Some ''abc'' \<and> url c = Some ''http://x'' \<and> hub c = Some ''h'' \<and>
      group c = None)"
proof -
  have env: "environ_hub ''QE_TOKEN'' = Some ''abc''" "environ_hub ''QE_URL'' = Some ''http://x''"
    "environ_hub ''QE_HUB'' = Some ''h''" "environ_hub ''QE_GROUP'' = None"
    by (simp_all add: environ_hub_def)
  from variables_map_to_fields [OF env(1) _ env(2), of ] env(3,4)
  have "\<exists>k c. fst (read_credentials_from_environ environ_hub) = Inr [(k, c)] \<and>
      token c = Some ''abc'' \<and> url c = Some ''http://x'' \<and> hub c = Some ''h'' \<and>
      group c = None"
    by fastforce
  with env show ?thesis
    by simp
qed

text \<open>
  C5. Starting from an environment with only \<^verbatim>\<open>QE_TOKEN="abc"\<close> and
  \<^verbatim>\<open>QE_URL="http://x"\<close>, setting \<^verbatim>\<open>QE_HUB="h"\<close>, \<^verbatim>\<open>QE_GROUP="g"\<close> and
  \<^verbatim>\<open>QE_PROJECT="p"\<close> as well changes the key of the returned mapping and fills the
  hub, group and project of the record, while token and url stay \<^verbatim>\<open>"abc"\<close> and
  \<^verbatim>\<open>"http://x"\<close>.
\<close>

theorem hub_group_project_change_key:
  assumes "env ''QE_TOKEN'' = Some ''abc''" and "env ''QE_URL'' = Some ''http://x''"
    and "env ''QE_WEBSOCKET_URL'' = None" and "env ''QE_HUB'' = None"
    and "env ''QE_GROUP'' = None" and "env ''QE_PROJECT'' = None"
  shows "\<exists>k c k' c'.
    fst (read_credentials_from_environ env) = Inr [(k, c)] \<and>
    fst (read_credentials_from_environ
      (env(''QE_HUB'' \<mapsto> ''h'', ''QE_GROUP'' \<mapsto> ''g'', ''QE_PROJECT'' \<mapsto> ''p''))) = Inr [(k', c')] \<and>
    k' \<noteq> k \<and>
    hub c = None \<and> group c = None \<and> project c = None \<and>
    hub c' = Some ''h'' \<and> group c' = Some ''g'' \<and> project c' = Some ''p'' \<and>
    token c = Some ''abc'' \<and> url c = Some ''http://x'' \<and>
    token c' = Some ''abc'' \<and> url c' = Some ''http://x''"
proof -
  let ?env' = "env(''QE_HUB'' \<mapsto> ''h'', ''QE_GROUP'' \<mapsto> ''g'', ''QE_PROJECT'' \<mapsto> ''p'')"
  have "truthy (env ''QE_TOKEN'')" and "truthy (env ''QE_URL'')"
    using assms by (simp_all add: truthy_Some)
  from read_credentials_fields [OF this] obtain c where
    before: "fst (read_credentials_from_environ env) = Inr [(unique_id c, c)]" and
    c: "token c = env ''QE_TOKEN''" "url c = env ''QE_URL''"
      "hub c = (if truthy (env ''QE_HUB'') then env ''QE_HUB'' else None)"
      "group c = (if truthy (env ''QE_GROUP'') then env ''QE_GROUP'' else None)"
      "project c = (if truthy (env ''QE_PROJECT'') then env ''QE_PROJECT'' else None)"
    by blast
  have "truthy (?env' ''QE_TOKEN'')" and "truthy (?env' ''QE_URL'')"
    using assms by (simp_all add: truthy_Some)
  from read_credentials_fields [OF this] obtain c' where
    after: "fst (read_credentials_from_environ ?env') = Inr [(unique_id c', c')]" and
    c': "token c' = ?env' ''QE_TOKEN''" "url c' = ?env' ''QE_URL''"
      "hub c' = (if truthy (?env' ''QE_HUB'') then ?env' ''QE_HUB'' else None)"
      "group c' = (if truthy (?env' ''QE_GROUP'') then ?env' ''QE_GROUP'' else None)"
      "project c' = (if truthy (?env' ''QE_PROJECT'') then ?env' ''QE_PROJECT'' else None)"
    by blast
  have fields: "hub c = None" "group c = None" "project c = None"
    "token c = Some ''abc''" "url c = Some ''http://x''"
    using c assms by (simp_all add: truthy_None)
  have fields': "hub c' = Some ''h''" "group c' = Some ''g''" "project c' = Some ''p''"
    "token c' = Some ''abc''" "url c' = Some ''http://x''"
    using c' assms by (simp_all add: truthy_Some)
  have key: "unique_id c' \<noteq> unique_id c"
    by (simp add: unique_id_def fields fields')
  show ?thesis
    by (intro exI [of _ "unique_id c"] exI [of _ c] exI [of _ "unique_id c'"] exI [of _ c']
          conjI before after key fields fields')
qed

theorem hub_group_project_change_key_witness:
  "environ_abc ''QE_TOKEN'' = Some ''abc'' \<and> environ_abc ''QE_URL'' = Some ''http://x'' \<and>
   environ_abc ''QE_WEBSOCKET_URL'' = None \<and> environ_abc ''QE_HUB'' = None \<and>
   environ_abc ''QE_GROUP'' = None \<and> environ_abc ''QE_PROJECT'' = None \<and>
   (\<exists>k c k' c'.
    fst (read_credentials_from_environ environ_abc) = Inr [(k, c)] \<and>
    fst (read_credentials_from_environ
      (environ_abc(''QE_HUB'' \<mapsto> ''h'', ''QE_GROUP'' \<mapsto> ''g'', ''QE_PROJECT'' \<mapsto> ''p''))) =
      Inr [(k', c')] \<and>
    k' \<noteq> k \<and> hub c' = Some ''h'' \<and> group c' = Some ''g'' \<and> project c' = Some ''p'' \<and>
    token c' = token c \<and> url c' = url c)"
proof -
  have env: "environ_abc ''QE_TOKEN'' = Some ''abc''" "environ_abc ''QE_URL'' = Some ''http://x''"
    "environ_abc ''QE_WEBSOCKET_URL'' = None" "environ_abc ''QE_HUB'' = None"
    "environ_abc ''QE_GROUP'' = None" "environ_abc ''QE_PROJECT'' = None"
    by (simp_all add: environ_abc_def)
  from hub_group_project_change_key [OF env]
  obtain k c k' c' where
    "fst (read_credentials_from_environ environ_abc) = Inr [(k, c)]"
    "fst (read_credentials_from_environ
      (environ_abc(''QE_HUB'' \<mapsto> ''h'', ''QE_GROUP'' \<mapsto> ''g'', ''QE_PROJECT'' \<mapsto> ''p''))) =
      Inr [(k', c')]"
    "k' \<noteq> k" "hub c' = Some ''h''" "group c' = Some ''g''" "project c' = Some ''p''"
    "token c' = token c" "url c' = url c"
    by force
  with env show ?thesis
    by blast
qed

text \<open>
  C6. A second call of the loader, made in the environment the first call leaves,
  returns a mapping equal to that of the first call: the same keys and records.
\<close>

theorem second_call_same_result:
  "fst (read_credentials_from_environ (snd (read_credentials_from_environ env))) =
   fst (read_credentials_from_environ env)"
  by (simp add: read_credentials_environ)

text \<open>
  C7. Two environments that agree on the six recognized variables give equal
  mappings, however they differ on other variables.
\<close>

theorem other_variables_ignored:
  assumes "env ''QE_TOKEN'' = env' ''QE_TOKEN''" and "env ''QE_URL'' = env' ''QE_URL''"
    and "env ''QE_WEBSOCKET_URL'' = env' ''QE_WEBSOCKET_URL''"
    and "env ''QE_HUB'' = env' ''QE_HUB''" and "env ''QE_GROUP'' = env' ''QE_GROUP''"
    and "env ''QE_PROJECT'' = env' ''QE_PROJECT''"
  shows "fst (read_credentials_from_environ env) = fst (read_credentials_from_environ env')"
proof (cases "truthy (env ''QE_TOKEN'') \<and> truthy (env ''QE_URL'')")
  case True
  then have t: "truthy (env ''QE_TOKEN'')" and u: "truthy (env ''QE_URL'')"
    by simp_all
  then have t': "truthy (env' ''QE_TOKEN'')" and u': "truthy (env' ''QE_URL'')"
    using assms by simp_all
  show ?thesis
    unfolding read_credentials_found [OF t u] read_credentials_found [OF t' u']
    by (simp only: assms fst_conv)
next
  case False
  then have "\<not> (truthy (env' ''QE_TOKEN'') \<and> truthy (env' ''QE_URL''))"
    using assms by simp
  with False show ?thesis
    by (simp add: read_credentials_empty)
qed

theorem other_variables_ignored_witness:
  "environ_abc ''QE_TOKEN'' = (environ_abc(''QE_FOO'' \<mapsto> ''bar'')) ''QE_TOKEN'' \<and>
   environ_abc ''QE_URL'' = (environ_abc(''QE_FOO'' \<mapsto> ''bar'')) ''QE_URL'' \<and>
   environ_abc ''QE_WEBSOCKET_URL'' = (environ_abc(''QE_FOO'' \<mapsto> ''bar'')) ''QE_WEBSOCKET_URL'' \<and>
   environ_abc ''QE_HUB'' = (environ_abc(''QE_FOO'' \<mapsto> ''bar'')) ''QE_HUB'' \<and>
   environ_abc ''QE_GROUP'' = (environ_abc(''QE_FOO'' \<mapsto> ''bar'')) ''QE_GROUP'' \<and>
   environ_abc ''QE_PROJECT'' = (environ_abc(''QE_FOO'' \<mapsto> ''bar'')) ''QE_PROJECT'' \<and>
   environ_abc ''QE_FOO'' \<noteq> (environ_abc(''QE_FOO'' \<mapsto> ''bar'')) ''QE_FOO'' \<and>
   fst (read_credentials_from_environ environ_abc) =
   fst (read_credentials_from_environ (environ_abc(''QE_FOO'' \<mapsto> ''bar'')))"
  using other_variables_ignored [of environ_abc "environ_abc(''QE_FOO'' \<mapsto> ''bar'')"]
  by (simp add: environ_abc_def)

text \<open>
  C9. The loader never raises: for every environment it returns a mapping, which is
  empty or has one entry, and it is empty when a required variable is missing or
  empty.
\<close>

theorem never_raises:
  "\<exists>m. fst (read_credentials_from_environ env) = Inr m \<and>
        (m = [] \<or> (\<exists>k c. m = [(k, c)])) \<and>
        (env ''QE_TOKEN'' = None \<or> env ''QE_TOKEN'' = Some [] \<or>
         env ''QE_URL'' = None \<or> env ''QE_URL'' = Some [] \<longrightarrow> m = [])"
proof (cases "truthy (env ''QE_TOKEN'') \<and> truthy (env ''QE_URL'')")
  case True
  then obtain c where "read_credentials_from_environ env = (Inr [(unique_id c, c)], env)"
    using read_credentials_one by blast
  then have "fst (read_credentials_from_environ env) = Inr [(unique_id c, c)]"
    by simp
  moreover from True
  have "\<not> (env ''QE_TOKEN'' = None \<or> env ''QE_TOKEN'' = Some [] \<or>
            env ''QE_URL'' = None \<or> env ''QE_URL'' = Some [])"
    by (auto simp: truthy_iff)
  ultimately show ?thesis
    by blast
next
  case False
  then have "fst (read_credentials_from_environ env) = Inr []"
    by (simp add: read_credentials_empty)
  then show ?thesis
    by simp
qed

theorem never_raises_witness:
  "[''QE_TOKEN'' \<mapsto> ''abc''] ''QE_URL'' = None \<and>
   fst (read_credentials_from_environ [''QE_TOKEN'' \<mapsto> ''abc'']) = Inr []"
  using never_raises [of "[''QE_TOKEN'' \<mapsto> ''abc'']"]
  by auto

text \<open>
  C10. When \<^verbatim>\<open>QE_TOKEN\<close> and \<^verbatim>\<open>QE_URL\<close> are both non-empty, the single key of the
  returned mapping is the \<^verbatim>\<open>unique_id()\<close> of the record stored under it.
\<close>

theorem key_is_unique_id:
  assumes "env ''QE_TOKEN'' = Some t" and "t \<noteq> []" and "env ''QE_URL'' = Some u" and "u \<noteq> []"
  shows "\<exists>k c. fst (read_credentials_from_environ env) = Inr [(k, c)] \<and> k = unique_id c"
proof -
  have "truthy (env ''QE_TOKEN'')" and "truthy (env ''QE_URL'')"
    using assms by (simp_all add: truthy_Some)
  then obtain c where "read_credentials_from_environ env = (Inr [(unique_id c, c)], env)"
    using read_credentials_one by blast
  then have "fst (read_credentials_from_environ env) = Inr [(unique_id c, c)]"
    by simp
  then show ?thesis
    by blast
qed

theorem key_is_unique_id_witness:
  "environ_abc ''QE_TOKEN'' = Some ''abc'' \<and> ''abc'' \<noteq> [] \<and>
   environ_abc ''QE_URL'' = Some ''http://x'' \<and> ''http://x'' \<noteq> [] \<and>
   (\<exists>k c. fst (read_credentials_from_environ environ_abc) = Inr [(k, c)] \<and> k = unique_id c)"
proof -
  have "environ_abc ''QE_TOKEN'' = Some ''abc''" and "environ_abc ''QE_URL'' = Some ''http://x''"
    by (simp_all add: environ_abc_def)
  moreover from key_is_unique_id [OF this(1) _ this(2)]
  have "\<exists>k c. fst (read_credentials_from_environ environ_abc) = Inr [(k, c)] \<and> k = unique_id c"
    by simp
  ultimately show ?thesis
    by simp
qed

end
